theory Spec2Isabelle
  imports Main "HOL-Library.Multiset" "HOL-Library.Product_Lexorder"
begin

section \<open>JavaScript values\<close>

text \<open>
  \<open>src/libs/reportUtils.js\<close> is JavaScript: a field of a record may be absent, and the
  operators \<open>&&\<close> and \<open>if\<close> look at the truthiness of a value, not at a boolean. The
  primitive values the module tests are modelled by \<open>jsval\<close>. Numbers are the integers
  (identifiers, timestamps and status codes are integer valued), so \<open>NaN\<close> does not occur.
  A field that holds a string, a number or a list and is only compared or defaulted is an
  \<open>option\<close>: \<open>None\<close> is the absent field, which reads as \<open>undefined\<close>.
\<close>

datatype jsval = JUndefined | JNull | JBool bool | JNum int | JStr string

fun truthy :: "jsval \<Rightarrow> bool" where
  "truthy JUndefined = False"
| "truthy JNull = False"
| "truthy (JBool b) = b"
| "truthy (JNum n) = (n \<noteq> 0)"
| "truthy (JStr s) = (s \<noteq> [])"

text \<open>\<open>a && b\<close>: the left operand when it is falsy, the right operand otherwise.\<close>

definition js_and :: "jsval \<Rightarrow> jsval \<Rightarrow> jsval" where
  "js_and a b = (if truthy a then b else a)"

text \<open>Reading a string field that may be absent.\<close>

definition of_field :: "string option \<Rightarrow> jsval" where
  "of_field v = (case v of None \<Rightarrow> JUndefined | Some s \<Rightarrow> JStr s)"

text \<open>
  \<open>lodashGet(object, path, defaultValue)\<close>: the caller resolves the path to an optional
  value; the default replaces a resolved value that is \<open>undefined\<close>.
\<close>

definition lodashGet :: "'a option \<Rightarrow> 'a \<Rightarrow> 'a" where
  "lodashGet resolved defaultValue = (case resolved of None \<Rightarrow> defaultValue | Some v \<Rightarrow> v)"

text \<open>The exception a property read on \<open>undefined\<close> raises.\<close>

datatype js_error = TypeError

section \<open>Data model\<close>

record report =
  reportID :: jsval
  chatType :: "string option"
  reportName :: "string option"
  policyID :: "string option"
  isOwnPolicyExpenseChat :: jsval
  oldPolicyName :: "string option"
  statusNum :: "int option"
  stateNum :: "int option"
  lastVisitedTimestamp :: "int option"
  participants :: "string list option"

record message_part =
  html :: "string option"
  text' :: "string option"

record reportAction =
  actorEmail :: jsval
  reportActionID :: jsval
  actionName :: "string option"
  message :: "message_part list option"

record timezone_value =
  automatic :: jsval
  selected :: jsval

text \<open>A profile's \<open>timezone\<close> is absent, \<open>null\<close> or an object.\<close>

datatype 'a nullable = Null | Object 'a

record profile =
  timezone :: "timezone_value nullable option"

record policy =
  name :: "string option"

record session =
  email :: jsval

text \<open>
  The constants of \<open>CONST.js\<close>, which the module imports and which is not part of the
  sources at hand: they are a parameter of every operation that reads one.
\<close>

record constants =
  POLICY_ADMINS :: string
  POLICY_ANNOUNCE :: string
  DOMAIN_ALL :: string
  POLICY_ROOM :: string
  POLICY_EXPENSE_CHAT :: string
  ADDCOMMENT :: string
  STATUS_CLOSED :: int
  STATE_NUM_SUBMITTED :: int
  EMAIL_CONCIERGE :: string
  EXPENSIFY_EMAILS :: "string list"
  DEFAULT_TIME_ZONE :: timezone_value

text \<open>The five values of \<open>CONST.REPORT.CHAT_TYPE\<close>.\<close>

definition chat_types :: "constants \<Rightarrow> string list" where
  "chat_types c =
     [POLICY_ADMINS c, POLICY_ANNOUNCE c, DOMAIN_ALL c, POLICY_ROOM c, POLICY_EXPENSE_CHAT c]"

text \<open>
  \<open>ONYXKEYS.COLLECTION.POLICY\<close>; the documentation of \<open>getChatRoomSubtitle\<close> gives its
  value.
\<close>

definition COLLECTION_POLICY :: string where
  "COLLECTION_POLICY = ''policy_''"

text \<open>A table of constants to evaluate the operations on, with the values the application uses.\<close>

definition app_constants :: constants where
  "app_constants = \<lparr>
     POLICY_ADMINS = ''policyAdmins'',
     POLICY_ANNOUNCE = ''policyAnnounce'',
     DOMAIN_ALL = ''domainAll'',
     POLICY_ROOM = ''policyRoom'',
     POLICY_EXPENSE_CHAT = ''policyExpenseChat'',
     ADDCOMMENT = ''ADDCOMMENT'',
     STATUS_CLOSED = 2,
     STATE_NUM_SUBMITTED = 2,
     EMAIL_CONCIERGE = ''concierge@expensify.com'',
     EXPENSIFY_EMAILS = [''concierge@expensify.com'', ''help@expensify.com'',
       ''receipts@expensify.com'', ''chronos@expensify.com'', ''qa@expensify.com''],
     DEFAULT_TIME_ZONE = \<lparr>automatic = JBool True, selected = JStr ''America/Los_Angeles''\<rparr>
   \<rparr>"

text \<open>A report with every optional field absent.\<close>

definition empty_report :: report where
  "empty_report = \<lparr>
     reportID = JUndefined, chatType = None, reportName = None, policyID = None,
     isOwnPolicyExpenseChat = JUndefined, oldPolicyName = None, statusNum = None,
     stateNum = None, lastVisitedTimestamp = None, participants = None\<rparr>"

section \<open>The cached session email\<close>

text \<open>
  \<open>let sessionEmail\<close> is the one piece of module state; the subscription callback
  overwrites it: \<open>val => sessionEmail = val ? val.email : null\<close>.
\<close>

record module_state =
  sessionEmail :: jsval

definition initial_state :: module_state where
  "initial_state = \<lparr>sessionEmail = JUndefined\<rparr>"

definition session_callback :: "session option \<Rightarrow> module_state \<Rightarrow> module_state" where
  "session_callback val st =
     st\<lparr>sessionEmail := (case val of None \<Rightarrow> JNull | Some s \<Rightarrow> email s)\<rparr>"

section \<open>Room kinds\<close>

definition isDefaultRoom :: "constants \<Rightarrow> report \<Rightarrow> bool" where
  "isDefaultRoom c report \<longleftrightarrow>
     lodashGet (chatType report) ''''
       \<in> set [POLICY_ADMINS c, POLICY_ANNOUNCE c, DOMAIN_ALL c]"

definition isAdminRoom :: "constants \<Rightarrow> report \<Rightarrow> bool" where
  "isAdminRoom c report \<longleftrightarrow> lodashGet (chatType report) '''' = POLICY_ADMINS c"

definition isAnnounceRoom :: "constants \<Rightarrow> report \<Rightarrow> bool" where
  "isAnnounceRoom c report \<longleftrightarrow> lodashGet (chatType report) '''' = POLICY_ANNOUNCE c"

definition isUserCreatedPolicyRoom :: "constants \<Rightarrow> report \<Rightarrow> bool" where
  "isUserCreatedPolicyRoom c report \<longleftrightarrow> lodashGet (chatType report) '''' = POLICY_ROOM c"

definition isPolicyExpenseChat :: "constants \<Rightarrow> report \<Rightarrow> bool" where
  "isPolicyExpenseChat c report \<longleftrightarrow>
     lodashGet (chatType report) '''' = POLICY_EXPENSE_CHAT c"

definition isChatRoom :: "constants \<Rightarrow> report \<Rightarrow> bool" where
  "isChatRoom c report \<longleftrightarrow> isUserCreatedPolicyRoom c report \<or> isDefaultRoom c report"

definition isArchivedRoom :: "constants \<Rightarrow> report \<Rightarrow> bool" where
  "isArchivedRoom c report =
     (if \<not> isChatRoom c report \<and> \<not> isPolicyExpenseChat c report then False
      else statusNum report = Some (STATUS_CLOSED c)
         \<and> stateNum report = Some (STATE_NUM_SUBMITTED c))"

section \<open>Concierge\<close>

text \<open>
  \<open>lodashGet(report, 'participants', []).length === 1 && report.participants[0] === CONST.EMAIL.CONCIERGE\<close>:
  the right operand is read only when the list has one entry, so the field is present there.
\<close>

definition isConciergeChatReport :: "constants \<Rightarrow> report \<Rightarrow> bool" where
  "isConciergeChatReport c report \<longleftrightarrow>
     length (lodashGet (participants report) []) = 1
     \<and> (case participants report of
          Some (p # _) \<Rightarrow> p = EMAIL_CONCIERGE c
        | _ \<Rightarrow> False)"

section \<open>Edit and delete permissions\<close>

definition isReportMessageAttachment :: "string \<Rightarrow> bool" where
  "isReportMessageAttachment reportMessageText \<longleftrightarrow> reportMessageText = ''[Attachment]''"

text \<open>
  The path \<open>['message', 0, 'text']\<close> of a report action: \<open>undefined\<close> when the message is
  absent, when it is empty, or when its first part has no text.
\<close>

definition message_0_text :: "reportAction \<Rightarrow> string option" where
  "message_0_text reportAction =
     (case message reportAction of
        None \<Rightarrow> None
      | Some [] \<Rightarrow> None
      | Some (part # _) \<Rightarrow> text' part)"

definition canEditReportAction :: "constants \<Rightarrow> module_state \<Rightarrow> reportAction \<Rightarrow> jsval" where
  "canEditReportAction c st reportAction =
     js_and (js_and (js_and
       (JBool (actorEmail reportAction = sessionEmail st))
       (reportActionID reportAction))
       (JBool (actionName reportAction = Some (ADDCOMMENT c))))
       (JBool (\<not> isReportMessageAttachment (lodashGet (message_0_text reportAction) '''')))"

definition canDeleteReportAction :: "constants \<Rightarrow> module_state \<Rightarrow> reportAction \<Rightarrow> jsval" where
  "canDeleteReportAction c st reportAction =
     js_and (js_and
       (JBool (actorEmail reportAction = sessionEmail st))
       (reportActionID reportAction))
       (JBool (actionName reportAction = Some (ADDCOMMENT c)))"

text \<open>
  \<open>action.message.length === 0 || action.message[0].html === ''\<close>: the read of \<open>length\<close>
  raises when the message is absent.
\<close>

definition isDeletedAction :: "reportAction \<Rightarrow> js_error + bool" where
  "isDeletedAction action =
     (case message action of
        None \<Rightarrow> Inl TypeError
      | Some [] \<Rightarrow> Inr True
      | Some (part # _) \<Rightarrow> Inr (html part = Some ''''))"

section \<open>Sorting by last visit\<close>

text \<open>
  A collection of reports is an array or an object; \<open>_.toArray\<close> copies the array and
  lists the values of the object in the order its keys enumerate. An entry may be
  \<open>null\<close> or \<open>undefined\<close> (\<open>None\<close>).
\<close>

datatype 'a collection = Array "'a list" | Record "(string \<times> 'a) list"

fun toArray :: "'a collection \<Rightarrow> 'a list" where
  "toArray (Array xs) = xs"
| "toArray (Record kvs) = map snd kvs"

text \<open>
  \<open>_.sortBy(obj, iteratee)\<close> of underscore pairs every value with its position and its
  criterion (a triple: value, index, criteria), sorts the triples with
  \<open>Array.prototype.sort\<close> under the comparator below, and plucks the values. The criterion here is a number or \<open>undefined\<close>; \<open>a > b\<close> and
  \<open>a < b\<close> are false when an operand is \<open>undefined\<close>.
\<close>

type_synonym 'a sort_entry = "'a \<times> nat \<times> int option"

definition js_greater :: "int option \<Rightarrow> int option \<Rightarrow> bool" where
  "js_greater a b = (case (a, b) of (Some x, Some y) \<Rightarrow> x > y | _ \<Rightarrow> False)"

definition js_less :: "int option \<Rightarrow> int option \<Rightarrow> bool" where
  "js_less a b = (case (a, b) of (Some x, Some y) \<Rightarrow> x < y | _ \<Rightarrow> False)"

definition sortBy_compare :: "'a sort_entry \<Rightarrow> 'a sort_entry \<Rightarrow> int" where
  "sortBy_compare left right =
     (let a = snd (snd left); b = snd (snd right) in
      if a \<noteq> b \<and> (js_greater a b \<or> a = None) then 1
      else if a \<noteq> b \<and> (js_less a b \<or> b = None) then - 1
      else int (fst (snd left)) - int (fst (snd right)))"

text \<open>
  \<open>Array.prototype.sort(comparefn)\<close> as an insertion sort. The comparator above is a
  strict total order on triples with distinct positions, so every conforming sort returns
  the same array.
\<close>

fun sort_insert :: "('a \<Rightarrow> 'a \<Rightarrow> int) \<Rightarrow> 'a \<Rightarrow> 'a list \<Rightarrow> 'a list" where
  "sort_insert comparefn x [] = [x]"
| "sort_insert comparefn x (y # ys) =
     (if comparefn x y \<le> 0 then x # y # ys else y # sort_insert comparefn x ys)"

definition array_sort :: "('a \<Rightarrow> 'a \<Rightarrow> int) \<Rightarrow> 'a list \<Rightarrow> 'a list" where
  "array_sort comparefn xs = foldr (sort_insert comparefn) xs []"

definition sort_entries :: "('a \<Rightarrow> int option) \<Rightarrow> 'a list \<Rightarrow> 'a sort_entry list" where
  "sort_entries iteratee obj =
     map (\<lambda>(index, v). (v, index, iteratee v)) (enumerate 0 obj)"

definition sortBy :: "('a \<Rightarrow> int option) \<Rightarrow> 'a list \<Rightarrow> 'a list" where
  "sortBy iteratee obj = map fst (array_sort sortBy_compare (sort_entries iteratee obj))"

text \<open>\<open>.filter(report => report && report.reportID).sortBy('lastVisitedTimestamp')\<close>\<close>

definition sortReportsByLastVisited :: "report option collection \<Rightarrow> report list" where
  "sortReportsByLastVisited reports =
     sortBy lastVisitedTimestamp
       [report. Some report \<leftarrow> toArray reports, truthy (reportID report)]"

text \<open>\<open>_.last(array)\<close>: the last element, \<open>undefined\<close> (\<open>None\<close>) for the empty array.\<close>

definition last_us :: "'a list \<Rightarrow> 'a option" where
  "last_us array = (if array = [] then None else Some (last array))"

definition findLastAccessedReport ::
  "constants \<Rightarrow> report option collection \<Rightarrow> jsval \<Rightarrow> report option" where
  "findLastAccessedReport c reports ignoreDefaultRooms =
     (let sortedReports = sortReportsByLastVisited reports;
          sortedReports =
            (if truthy ignoreDefaultRooms
             then filter (\<lambda>report. \<not> isDefaultRoom c report) sortedReports
             else sortedReports)
      in last_us sortedReports)"

text \<open>
  The order the claim about sorting speaks of: timestamps ascend, and a report without
  a timestamp comes after every report that has one.
\<close>

fun timestamp_le :: "int option \<Rightarrow> int option \<Rightarrow> bool" where
  "timestamp_le (Some a) (Some b) = (a \<le> b)"
| "timestamp_le None (Some b) = False"
| "timestamp_le a None = True"

text \<open>The key that the comparator of \<open>sortBy\<close> orders the triples by.\<close>

definition criteria_rank :: "int option \<Rightarrow> nat \<times> int" where
  "criteria_rank a = (case a of None \<Rightarrow> (1, 0) | Some t \<Rightarrow> (0, t))"

definition entry_key :: "'a sort_entry \<Rightarrow> (nat \<times> int) \<times> nat" where
  "entry_key e = (criteria_rank (snd (snd e)), fst (snd e))"

section \<open>Room subtitle\<close>

text \<open>\<open>s.substring(start)\<close> for a start within the string or at its end.\<close>

definition substring :: "string \<Rightarrow> nat \<Rightarrow> string" where
  "substring s start = drop start s"

text \<open>A field inside a template literal: \<open>undefined\<close> prints as its name.\<close>

definition template_field :: "string option \<Rightarrow> string" where
  "template_field v = (case v of None \<Rightarrow> ''undefined'' | Some s \<Rightarrow> s)"

text \<open>The path \<open>[key, 'name']\<close> of the policy map.\<close>

definition policy_name :: "(string \<rightharpoonup> policy) \<Rightarrow> string \<Rightarrow> string option" where
  "policy_name policiesMap key =
     (case policiesMap key of None \<Rightarrow> None | Some p \<Rightarrow> name p)"

text \<open>
  \<open>Localize.translateLocal\<close> is the localization service, a parameter. The read
  \<open>report.reportName.substring(1)\<close> raises when the name is absent.
\<close>

definition getChatRoomSubtitle ::
  "constants \<Rightarrow> (string \<Rightarrow> string) \<Rightarrow> report \<Rightarrow> (string \<rightharpoonup> policy) \<Rightarrow> js_error + jsval" where
  "getChatRoomSubtitle c translateLocal report policiesMap =
     (if \<not> isDefaultRoom c report \<and> \<not> isUserCreatedPolicyRoom c report
         \<and> \<not> isPolicyExpenseChat c report
      then Inr (JStr '''')
      else if chatType report = Some (DOMAIN_ALL c)
      then (case reportName report of
              None \<Rightarrow> Inl TypeError
            | Some n \<Rightarrow> Inr (JStr (substring n 1)))
      else if isArchivedRoom c report
      then Inr (of_field (oldPolicyName report))
      else if isPolicyExpenseChat c report \<and> truthy (isOwnPolicyExpenseChat report)
      then Inr (JStr (translateLocal ''workspace.common.workspace''))
      else Inr (JStr (lodashGet
             (policy_name policiesMap (COLLECTION_POLICY @ template_field (policyID report)))
             (translateLocal ''workspace.common.unavailable''))))"

section \<open>Recipient local time\<close>

text \<open>
  \<open>_.intersection(array, other)\<close> of underscore: the items of \<open>array\<close>, each once and in
  order, that \<open>other\<close> contains.
\<close>

fun intersection_loop :: "'a list \<Rightarrow> 'a list \<Rightarrow> 'a list \<Rightarrow> 'a list" where
  "intersection_loop [] other result = result"
| "intersection_loop (item # array) other result =
     (if item \<in> set result then intersection_loop array other result
      else if item \<in> set other then intersection_loop array other (result @ [item])
      else intersection_loop array other result)"

definition intersection :: "'a list \<Rightarrow> 'a list \<Rightarrow> 'a list" where
  "intersection array other = intersection_loop array other []"

definition hasExpensifyEmails :: "constants \<Rightarrow> string list \<Rightarrow> bool" where
  "hasExpensifyEmails c emails \<longleftrightarrow> length (intersection emails (EXPENSIFY_EMAILS c)) > 0"

text \<open>
  \<open>personalDetails[reportParticipants[0]]\<close>: the first participant is the property key;
  for the empty list the index reads \<open>undefined\<close>, whose property key is its name.
\<close>

definition first_participant_key :: "string list \<Rightarrow> string" where
  "first_participant_key reportParticipants =
     (case reportParticipants of [] \<Rightarrow> ''undefined'' | p # _ \<Rightarrow> p)"

text \<open>
  \<open>personalDetails\<close> is a plain object, and \<open>object[key]\<close> reads an entry of its own or,
  when it has none under the key, a property it inherits from \<open>Object.prototype\<close>. The
  names below are the properties of \<open>Object.prototype\<close> in ECMAScript. What is inherited
  under them is a function (under \<open>__proto__\<close> the prototype itself): a truthy value that
  has no \<open>timezone\<close>.
\<close>

definition Object_prototype_keys :: "string list" where
  "Object_prototype_keys =
     [''constructor'', ''hasOwnProperty'', ''isPrototypeOf'', ''propertyIsEnumerable'',
      ''toLocaleString'', ''toString'', ''valueOf'', ''__proto__'', ''__defineGetter__'',
      ''__defineSetter__'', ''__lookupGetter__'', ''__lookupSetter__'']"

datatype 'a property = Own 'a | Inherited

definition get_property :: "(string \<rightharpoonup> 'a) \<Rightarrow> string \<Rightarrow> 'a property option" where
  "get_property object key =
     (case object key of
        Some v \<Rightarrow> Some (Own v)
      | None \<Rightarrow> if key \<in> set Object_prototype_keys then Some Inherited else None)"

text \<open>The path \<open>['timezone']\<close> of what was read: only a profile can have one.\<close>

definition recipient_timezone :: "profile property option \<Rightarrow> timezone_value nullable option" where
  "recipient_timezone reportRecipient =
     (case reportRecipient of Some (Own p) \<Rightarrow> timezone p | _ \<Rightarrow> None)"

definition canShowReportRecipientLocalTime ::
  "constants \<Rightarrow> (string \<rightharpoonup> profile) \<Rightarrow> report \<Rightarrow> jsval" where
  "canShowReportRecipientLocalTime c personalDetails report =
     (let reportParticipants = lodashGet (participants report) [];
          hasMultipleParticipants = length reportParticipants > 1;
          reportRecipient =
            get_property personalDetails (first_participant_key reportParticipants);
          reportRecipientTimezone =
            lodashGet (recipient_timezone reportRecipient) (Object (DEFAULT_TIME_ZONE c))
      in if hasExpensifyEmails c reportParticipants then JBool False
         else if hasMultipleParticipants then JBool False
         else if reportRecipient = None then JUndefined
         else (case reportRecipientTimezone of
                 Null \<Rightarrow> JNull
               | Object tz \<Rightarrow> selected tz))"

text \<open>
  The condition as the specification words it, to compare \<open>canShowReportRecipientLocalTime\<close>
  with: the report has exactly one participant, that participant's profile exists in the
  map and has a timezone, the timezone's \<open>selected\<close> value is truthy, and the participant
  is no reserved system email.
\<close>

definition canShowReportRecipientLocalTime_spec ::
  "constants \<Rightarrow> (string \<rightharpoonup> profile) \<Rightarrow> report \<Rightarrow> bool" where
  "canShowReportRecipientLocalTime_spec c personalDetails report =
     (case participants report of
        Some [e] \<Rightarrow>
          e \<notin> set (EXPENSIFY_EMAILS c)
          \<and> (case personalDetails e of
                Some p \<Rightarrow>
                  (case timezone p of
                     Some (Object tz) \<Rightarrow> truthy (selected tz)
                   | _ \<Rightarrow> False)
              | None \<Rightarrow> False)
      | _ \<Rightarrow> False)"

section \<open>Room kinds: properties\<close>

text \<open>
  C10. With the five chat-type constants pairwise distinct, at most one of
  \<open>isAdminRoom\<close>, \<open>isAnnounceRoom\<close>, \<open>isUserCreatedPolicyRoom\<close> and
  \<open>isPolicyExpenseChat\<close> holds of a report, and no report is both a default room and a
  user-created policy room or a policy-expense chat.
\<close>

theorem room_kinds_exclusive:
  assumes "distinct (chat_types c)"
  shows "length (filter (\<lambda>b. b)
           [isAdminRoom c r, isAnnounceRoom c r, isUserCreatedPolicyRoom c r,
            isPolicyExpenseChat c r]) \<le> 1
       \<and> \<not> (isDefaultRoom c r \<and> isUserCreatedPolicyRoom c r)
       \<and> \<not> (isDefaultRoom c r \<and> isPolicyExpenseChat c r)"
  using assms
  by (auto simp: chat_types_def isAdminRoom_def isAnnounceRoom_def
      isUserCreatedPolicyRoom_def isPolicyExpenseChat_def isDefaultRoom_def)

theorem room_kinds_exclusive_witness:
  "distinct (chat_types app_constants)
   \<and> isAdminRoom app_constants (empty_report\<lparr>chatType := Some ''policyAdmins''\<rparr>)
   \<and> \<not> isAnnounceRoom app_constants (empty_report\<lparr>chatType := Some ''policyAdmins''\<rparr>)
   \<and> \<not> isUserCreatedPolicyRoom app_constants (empty_report\<lparr>chatType := Some ''policyAdmins''\<rparr>)
   \<and> \<not> isPolicyExpenseChat app_constants (empty_report\<lparr>chatType := Some ''policyAdmins''\<rparr>)"
proof -
  have d: "distinct (chat_types app_constants)"
    by (simp add: chat_types_def app_constants_def)
  have a: "isAdminRoom app_constants (empty_report\<lparr>chatType := Some ''policyAdmins''\<rparr>)"
    by (simp add: isAdminRoom_def lodashGet_def app_constants_def empty_report_def)
  show ?thesis
    using d a room_kinds_exclusive [OF d, of "empty_report\<lparr>chatType := Some ''policyAdmins''\<rparr>"]
    by (auto split: if_splits)
qed

text \<open>
  C6. \<open>isArchivedRoom\<close> is false unless the report is a chat room (a user-created policy
  room or a default room) or a policy-expense chat; for those it is true exactly when
  \<open>statusNum\<close> is \<open>CLOSED\<close> and \<open>stateNum\<close> is \<open>SUBMITTED\<close>. A report without a
  \<open>chatType\<close> is never archived, whatever the two numbers are (no chat-type constant being
  the empty string).
\<close>

theorem isArchivedRoom_iff:
  "(isChatRoom c r \<longleftrightarrow> isUserCreatedPolicyRoom c r \<or> isDefaultRoom c r)
   \<and> (\<not> isChatRoom c r \<and> \<not> isPolicyExpenseChat c r \<longrightarrow> \<not> isArchivedRoom c r)
   \<and> (isChatRoom c r \<or> isPolicyExpenseChat c r \<longrightarrow>
        (isArchivedRoom c r \<longleftrightarrow>
           statusNum r = Some (STATUS_CLOSED c) \<and> stateNum r = Some (STATE_NUM_SUBMITTED c)))
   \<and> ('''' \<notin> set (chat_types c) \<and> chatType r = None \<longrightarrow> \<not> isArchivedRoom c r)"
  by (auto simp: isArchivedRoom_def isChatRoom_def isUserCreatedPolicyRoom_def
      isDefaultRoom_def isPolicyExpenseChat_def chat_types_def lodashGet_def)

theorem isArchivedRoom_iff_witness:
  "isChatRoom app_constants
     (empty_report\<lparr>chatType := Some ''policyRoom'', statusNum := Some 2, stateNum := Some 2\<rparr>)
   \<and> isArchivedRoom app_constants
     (empty_report\<lparr>chatType := Some ''policyRoom'', statusNum := Some 2, stateNum := Some 2\<rparr>)
   \<and> '''' \<notin> set (chat_types app_constants)
   \<and> \<not> isArchivedRoom app_constants (empty_report\<lparr>statusNum := Some 2, stateNum := Some 2\<rparr>)"
proof -
  let ?room = "empty_report\<lparr>chatType := Some ''policyRoom'', statusNum := Some 2, stateNum := Some 2\<rparr>"
  let ?dm = "empty_report\<lparr>statusNum := Some 2, stateNum := Some 2\<rparr>"
  have room: "isChatRoom app_constants ?room"
    by (simp add: isChatRoom_def isUserCreatedPolicyRoom_def lodashGet_def app_constants_def
        empty_report_def)
  have nums: "statusNum ?room = Some (STATUS_CLOSED app_constants)"
    "stateNum ?room = Some (STATE_NUM_SUBMITTED app_constants)"
    by (simp_all add: app_constants_def empty_report_def)
  have ne: "'''' \<notin> set (chat_types app_constants)"
    by (simp add: chat_types_def app_constants_def)
  have dm: "chatType ?dm = None"
    by (simp add: empty_report_def)
  show ?thesis
    using room nums ne dm isArchivedRoom_iff [of app_constants ?room]
      isArchivedRoom_iff [of app_constants ?dm]
    by blast
qed

section \<open>Concierge: properties\<close>

text \<open>
  C9. \<open>isConciergeChatReport\<close> holds exactly when the participants, an absent field
  counting as the empty list, are one entry that is the Concierge identifier: it is false
  for no participant, for two or more, and for one participant that is not Concierge.
\<close>

theorem isConciergeChatReport_iff:
  "(isConciergeChatReport c r \<longleftrightarrow>
      (case participants r of None \<Rightarrow> [] | Some ps \<Rightarrow> ps) = [EMAIL_CONCIERGE c])
   \<and> (participants r = None \<longrightarrow> \<not> isConciergeChatReport c r)
   \<and> (participants r = Some [] \<longrightarrow> \<not> isConciergeChatReport c r)
   \<and> (\<forall>ps. participants r = Some ps \<and> length ps \<ge> 2 \<longrightarrow> \<not> isConciergeChatReport c r)
   \<and> (\<forall>p. participants r = Some [p] \<and> p \<noteq> EMAIL_CONCIERGE c \<longrightarrow> \<not> isConciergeChatReport c r)"
  by (auto simp: isConciergeChatReport_def lodashGet_def split: option.splits list.splits)

theorem isConciergeChatReport_iff_witness:
  "isConciergeChatReport app_constants
     (empty_report\<lparr>participants := Some [''concierge@expensify.com'']\<rparr>)
   \<and> \<not> isConciergeChatReport app_constants empty_report
   \<and> \<not> isConciergeChatReport app_constants
        (empty_report\<lparr>participants := Some [''concierge@expensify.com'', ''a@example.com'']\<rparr>)
   \<and> \<not> isConciergeChatReport app_constants
        (empty_report\<lparr>participants := Some [''a@example.com'']\<rparr>)"
proof -
  have c: "EMAIL_CONCIERGE app_constants = ''concierge@expensify.com''"
    by (simp add: app_constants_def)
  have n: "participants empty_report = None"
    by (simp add: empty_report_def)
  show ?thesis
    using isConciergeChatReport_iff
        [of app_constants "empty_report\<lparr>participants := Some [''concierge@expensify.com'']\<rparr>"]
      isConciergeChatReport_iff [of app_constants empty_report]
      isConciergeChatReport_iff [of app_constants
        "empty_report\<lparr>participants := Some [''concierge@expensify.com'', ''a@example.com'']\<rparr>"]
      isConciergeChatReport_iff
        [of app_constants "empty_report\<lparr>participants := Some [''a@example.com'']\<rparr>"]
    by (simp add: c n)
qed

section \<open>Edit and delete permissions: properties\<close>

lemma truthy_js_and: "truthy (js_and a b) \<longleftrightarrow> truthy a \<and> truthy b"
  by (simp add: js_and_def)

lemma message_0_text_default:
  "lodashGet (message_0_text a) '''' =
     (case message a of
        Some (part # rest) \<Rightarrow> (case text' part of Some t \<Rightarrow> t | None \<Rightarrow> '''')
      | _ \<Rightarrow> '''')"
  by (simp add: lodashGet_def message_0_text_def split: option.splits list.splits)

lemma truthy_canDeleteReportAction:
  "truthy (canDeleteReportAction c st a) \<longleftrightarrow>
     actorEmail a = sessionEmail st \<and> truthy (reportActionID a)
     \<and> actionName a = Some (ADDCOMMENT c)"
  by (simp add: canDeleteReportAction_def truthy_js_and)

lemma truthy_canEditReportAction:
  "truthy (canEditReportAction c st a) \<longleftrightarrow>
     actorEmail a = sessionEmail st \<and> truthy (reportActionID a)
     \<and> actionName a = Some (ADDCOMMENT c)
     \<and> lodashGet (message_0_text a) '''' \<noteq> ''[Attachment]''"
  by (simp add: canEditReportAction_def truthy_js_and isReportMessageAttachment_def)

text \<open>
  C2. \<open>canEditReportAction\<close> is truthy exactly when the actor's email is the cached
  session email, the \<open>reportActionID\<close> is truthy, the action name is \<open>ADDCOMMENT\<close>, and
  the text of the first message part, the empty string when there is none, is not
  \<open>[Attachment]\<close>. It is falsy whenever the \<open>reportActionID\<close> is absent.
\<close>

theorem canEditReportAction_iff:
  "(truthy (canEditReportAction c st a) \<longleftrightarrow>
      actorEmail a = sessionEmail st
      \<and> truthy (reportActionID a)
      \<and> actionName a = Some (ADDCOMMENT c)
      \<and> (case message a of
            Some (part # rest) \<Rightarrow> (case text' part of Some t \<Rightarrow> t | None \<Rightarrow> '''')
          | _ \<Rightarrow> '''') \<noteq> ''[Attachment]'')
   \<and> (reportActionID a = JUndefined \<longrightarrow> \<not> truthy (canEditReportAction c st a))"
  by (auto simp: truthy_canEditReportAction message_0_text_default)

theorem canEditReportAction_iff_witness:
  "truthy (canEditReportAction app_constants \<lparr>sessionEmail = JStr ''me@example.com''\<rparr>
     \<lparr>actorEmail = JStr ''me@example.com'', reportActionID = JNum 7,
      actionName = Some ''ADDCOMMENT'', message = None\<rparr>)
   \<and> \<not> truthy (canEditReportAction app_constants \<lparr>sessionEmail = JStr ''me@example.com''\<rparr>
     \<lparr>actorEmail = JStr ''me@example.com'', reportActionID = JUndefined,
      actionName = Some ''ADDCOMMENT'',
      message = Some [\<lparr>html = Some ''hi'', text' = Some ''hi''\<rparr>]\<rparr>)"
  using canEditReportAction_iff [of app_constants "\<lparr>sessionEmail = JStr ''me@example.com''\<rparr>"
      "\<lparr>actorEmail = JStr ''me@example.com'', reportActionID = JNum 7,
        actionName = Some ''ADDCOMMENT'', message = None\<rparr>"]
    canEditReportAction_iff [of app_constants "\<lparr>sessionEmail = JStr ''me@example.com''\<rparr>"
      "\<lparr>actorEmail = JStr ''me@example.com'', reportActionID = JUndefined,
        actionName = Some ''ADDCOMMENT'',
        message = Some [\<lparr>html = Some ''hi'', text' = Some ''hi''\<rparr>]\<rparr>"]
  by (simp add: app_constants_def)

text \<open>
  C3. \<open>canDeleteReportAction\<close> is \<open>canEditReportAction\<close> without the attachment check:
  it is truthy exactly under the first three conditions, so it is truthy whenever
  \<open>canEditReportAction\<close> is, and for an \<open>ADDCOMMENT\<close> action of the session user that has
  a \<open>reportActionID\<close> and whose first message part's text is \<open>[Attachment]\<close> it is
  truthy while \<open>canEditReportAction\<close> is falsy.
\<close>

theorem canDeleteReportAction_omits_attachment_check:
  "(truthy (canDeleteReportAction c st a) \<longleftrightarrow>
      actorEmail a = sessionEmail st \<and> truthy (reportActionID a)
      \<and> actionName a = Some (ADDCOMMENT c))
   \<and> (truthy (canEditReportAction c st a) \<longrightarrow> truthy (canDeleteReportAction c st a))
   \<and> (actorEmail a = sessionEmail st \<and> truthy (reportActionID a)
        \<and> actionName a = Some (ADDCOMMENT c)
        \<and> (\<exists>part rest. message a = Some (part # rest) \<and> text' part = Some ''[Attachment]'')
      \<longrightarrow> truthy (canDeleteReportAction c st a) \<and> \<not> truthy (canEditReportAction c st a))"
  by (auto simp: truthy_canEditReportAction truthy_canDeleteReportAction message_0_text_default)

theorem canDeleteReportAction_omits_attachment_check_witness:
  "truthy (canDeleteReportAction app_constants \<lparr>sessionEmail = JStr ''me@example.com''\<rparr>
     \<lparr>actorEmail = JStr ''me@example.com'', reportActionID = JNum 7,
      actionName = Some ''ADDCOMMENT'',
      message = Some [\<lparr>html = Some ''<img>'', text' = Some ''[Attachment]''\<rparr>]\<rparr>)
   \<and> \<not> truthy (canEditReportAction app_constants \<lparr>sessionEmail = JStr ''me@example.com''\<rparr>
     \<lparr>actorEmail = JStr ''me@example.com'', reportActionID = JNum 7,
      actionName = Some ''ADDCOMMENT'',
      message = Some [\<lparr>html = Some ''<img>'', text' = Some ''[Attachment]''\<rparr>]\<rparr>)"
  using canDeleteReportAction_omits_attachment_check
      [of app_constants "\<lparr>sessionEmail = JStr ''me@example.com''\<rparr>"
        "\<lparr>actorEmail = JStr ''me@example.com'', reportActionID = JNum 7,
          actionName = Some ''ADDCOMMENT'',
          message = Some [\<lparr>html = Some ''<img>'', text' = Some ''[Attachment]''\<rparr>]\<rparr>"]
  by (simp add: app_constants_def)

section \<open>Sorting by last visit: properties\<close>

text \<open>The comparator of \<open>sortBy\<close> is the lexicographic order on criterion and position.\<close>


lemma sortBy_compare_key: "sortBy_compare l r \<le> 0 \<longleftrightarrow> entry_key l \<le> entry_key r"
  by (cases "snd (snd l)"; cases "snd (snd r)")
     (auto simp: sortBy_compare_def entry_key_def criteria_rank_def js_greater_def js_less_def Let_def)

lemma sort_insert_key: "sort_insert sortBy_compare x ys = insort_key entry_key x ys"
  by (induction ys) (simp_all add: sortBy_compare_key)

lemma array_sort_key: "array_sort sortBy_compare es = sort_key entry_key es"
  by (induction es) (simp_all add: array_sort_def sort_key_def sort_insert_key)

lemma sortBy_entries: "sortBy f xs = map fst (sort_key entry_key (sort_entries f xs))"
  by (simp add: sortBy_def sort_entries_def array_sort_key)

lemma fst_sort_entries: "map fst (sort_entries f xs) = xs"
proof -
  have "map fst (sort_entries f xs) = map snd (enumerate 0 xs)"
    by (simp add: sort_entries_def case_prod_unfold o_def)
  then show ?thesis
    by (simp only: map_snd_enumerate)
qed

lemma index_sort_entries: "map (\<lambda>e. fst (snd e)) (sort_entries f xs) = [0..<length xs]"
  using map_fst_enumerate[of 0 xs]
  by (simp add: sort_entries_def case_prod_unfold o_def)

lemma criteria_sort_entries: "e \<in> set (sort_entries f xs) \<Longrightarrow> snd (snd e) = f (fst e)"
  by (auto simp: sort_entries_def)

lemma mset_sortBy: "mset (sortBy f xs) = mset xs"
proof -
  have "mset (sortBy f xs) = image_mset fst (mset (sort_key entry_key (sort_entries f xs)))"
    by (simp add: sortBy_entries)
  also have "\<dots> = mset (map fst (sort_entries f xs))"
    by simp
  finally show ?thesis
    by (simp add: fst_sort_entries)
qed

lemma rank_le: "criteria_rank a \<le> criteria_rank b \<longleftrightarrow> timestamp_le a b"
  by (cases a; cases b) (auto simp: criteria_rank_def)

lemma sorted_sortBy: "sorted_wrt (\<lambda>a b. timestamp_le (f a) (f b)) (sortBy f xs)"
proof -
  let ?S = "sort_key entry_key (sort_entries f xs)"
  have "sorted (map entry_key ?S)"
    by (rule sorted_sort_key)
  then have "sorted_wrt (\<lambda>a b. entry_key a \<le> entry_key b) ?S"
    by (simp add: sorted_map)
  then have "sorted_wrt (\<lambda>a b. timestamp_le (f (fst a)) (f (fst b))) ?S"
  proof (rule sorted_wrt_mono_rel[rotated])
    fix a b assume "a \<in> set ?S" "b \<in> set ?S" "entry_key a \<le> entry_key b"
    then have "criteria_rank (f (fst a)) \<le> criteria_rank (f (fst b))"
      by (auto simp: entry_key_def criteria_sort_entries intro: less_imp_le)
    then show "timestamp_le (f (fst a)) (f (fst b))"
      by (simp add: rank_le)
  qed
  then show ?thesis
    by (simp add: sortBy_entries sorted_wrt_map)
qed

lemma stable_sortBy: "filter (\<lambda>x. f x = k) (sortBy f xs) = filter (\<lambda>x. f x = k) xs"
proof -
  let ?E = "sort_entries f xs"
  let ?S = "sort_key entry_key ?E"
  let ?P = "\<lambda>e::'a sort_entry. snd (snd e) = k"
  let ?ix = "\<lambda>e::'a sort_entry. fst (snd e)"
  have dist: "distinct (map ?ix ?E)"
    by (simp add: index_sort_entries)
  have inj: "inj_on ?ix (set ?E)"
    using dist by (simp add: distinct_map)
  have sE: "sorted (map ?ix (filter ?P ?E))"
    using sorted_filter[of ?ix ?E ?P] by (simp add: index_sort_entries)
  have "sorted (map entry_key (filter ?P ?S))"
    by (rule sorted_filter) (rule sorted_sort_key)
  then have "sorted_wrt (\<lambda>a b. entry_key a \<le> entry_key b) (filter ?P ?S)"
    by (simp add: sorted_map)
  then have "sorted_wrt (\<lambda>a b. ?ix a \<le> ?ix b) (filter ?P ?S)"
    by (rule sorted_wrt_mono_rel[rotated]) (auto simp: entry_key_def)
  then have sS: "sorted (map ?ix (filter ?P ?S))"
    by (simp add: sorted_map)
  have dE0: "distinct ?E"
    using dist by (simp add: distinct_map)
  have dS: "distinct (map ?ix (filter ?P ?S))"
    using inj dE0 by (auto simp: distinct_map intro: inj_on_subset)
  have dE: "distinct (map ?ix (filter ?P ?E))"
    using inj dE0 by (auto simp: distinct_map intro: inj_on_subset)
  have "map ?ix (filter ?P ?S) = map ?ix (filter ?P ?E)"
    by (rule sorted_distinct_set_unique[OF sS dS sE dE]) simp
  then have eq: "filter ?P ?S = filter ?P ?E"
    by (rule map_inj_on) (auto intro: inj_on_subset[OF inj])
  have "filter (\<lambda>x. f x = k) (sortBy f xs) = map fst (filter (\<lambda>e. f (fst e) = k) ?S)"
    by (simp add: sortBy_entries filter_map o_def)
  also have "filter (\<lambda>e. f (fst e) = k) ?S = filter ?P ?S"
    by (rule filter_cong) (auto simp: criteria_sort_entries)
  also have "\<dots> = filter ?P ?E"
    by (rule eq)
  also have "\<dots> = filter (\<lambda>e. f (fst e) = k) ?E"
    by (rule filter_cong) (auto simp: criteria_sort_entries)
  also have "map fst \<dots> = filter (\<lambda>x. f x = k) (map fst ?E)"
    by (simp add: filter_map o_def)
  finally show ?thesis
    by (simp add: fst_sort_entries)
qed

lemma kept_reports:
  "map Some [report. Some report \<leftarrow> xs, truthy (reportID report)] =
     filter (\<lambda>entry. case entry of None \<Rightarrow> False | Some report \<Rightarrow> truthy (reportID report)) xs"
  by (induction xs) (auto split: option.splits)

lemma filter_map_Some:
  "filter (\<lambda>entry. case entry of None \<Rightarrow> False | Some report \<Rightarrow> P report) (map Some xs) =
     map Some (filter P xs)"
  by (induction xs) auto

lemma set_sortReportsByLastVisited:
  "set (sortReportsByLastVisited reports) =
     {report. Some report \<in> set (toArray reports) \<and> truthy (reportID report)}"
proof -
  have "set (sortReportsByLastVisited reports) =
      set [report. Some report \<leftarrow> toArray reports, truthy (reportID report)]"
    unfolding sortReportsByLastVisited_def by (rule mset_eq_setD) (rule mset_sortBy)
  also have "\<dots> = {report. Some report \<in> set (toArray reports) \<and> truthy (reportID report)}"
    by (auto split: option.splits)
  finally show ?thesis .
qed

text \<open>
  C1. For a collection of reports, an array or an object, \<open>sortReportsByLastVisited\<close>
  returns exactly the entries that are truthy and have a truthy \<open>reportID\<close>, each as
  often as the collection holds it; the result ascends by \<open>lastVisitedTimestamp\<close>
  (reports without one last); and the entries of one timestamp keep the order they have
  in the collection.
\<close>

theorem sortReportsByLastVisited_sorted_stable:
  "mset (map Some (sortReportsByLastVisited reports)) =
     mset (filter (\<lambda>entry. case entry of None \<Rightarrow> False
                              | Some report \<Rightarrow> truthy (reportID report)) (toArray reports))
   \<and> sorted_wrt (\<lambda>a b. timestamp_le (lastVisitedTimestamp a) (lastVisitedTimestamp b))
        (sortReportsByLastVisited reports)
   \<and> (\<forall>t. map Some (filter (\<lambda>report. lastVisitedTimestamp report = t)
                (sortReportsByLastVisited reports)) =
            filter (\<lambda>entry. case entry of None \<Rightarrow> False
                      | Some report \<Rightarrow> truthy (reportID report) \<and> lastVisitedTimestamp report = t)
              (toArray reports))"
proof (intro conjI allI)
  let ?kept = "[report. Some report \<leftarrow> toArray reports, truthy (reportID report)]"
  have "mset (map Some (sortReportsByLastVisited reports)) = mset (map Some ?kept)"
    by (simp add: sortReportsByLastVisited_def mset_sortBy)
  then show "mset (map Some (sortReportsByLastVisited reports)) =
     mset (filter (\<lambda>entry. case entry of None \<Rightarrow> False
                              | Some report \<Rightarrow> truthy (reportID report)) (toArray reports))"
    by (simp only: kept_reports)
  show "sorted_wrt (\<lambda>a b. timestamp_le (lastVisitedTimestamp a) (lastVisitedTimestamp b))
        (sortReportsByLastVisited reports)"
    unfolding sortReportsByLastVisited_def by (rule sorted_sortBy)
  fix t
  have "map Some (filter (\<lambda>report. lastVisitedTimestamp report = t)
          (sortReportsByLastVisited reports)) =
        map Some (filter (\<lambda>report. lastVisitedTimestamp report = t) ?kept)"
    by (simp add: sortReportsByLastVisited_def stable_sortBy)
  also have "\<dots> = filter (\<lambda>entry. case entry of None \<Rightarrow> False
                        | Some report \<Rightarrow> lastVisitedTimestamp report = t) (map Some ?kept)"
    by (simp only: filter_map_Some)
  also have "\<dots> = filter (\<lambda>entry. case entry of None \<Rightarrow> False
                      | Some report \<Rightarrow> truthy (reportID report) \<and> lastVisitedTimestamp report = t)
              (toArray reports)"
    unfolding kept_reports by (auto intro!: filter_cong split: option.splits)
  finally show "map Some (filter (\<lambda>report. lastVisitedTimestamp report = t)
                (sortReportsByLastVisited reports)) =
            filter (\<lambda>entry. case entry of None \<Rightarrow> False
                      | Some report \<Rightarrow> truthy (reportID report) \<and> lastVisitedTimestamp report = t)
              (toArray reports)" .
qed

lemma timestamp_le_refl: "timestamp_le a a"
  by (cases a) simp_all

lemma sorted_wrt_last:
  assumes "sorted_wrt P xs" and "x \<in> set xs" and "\<And>y. P y y"
  shows "P x (last xs)"
proof -
  from assms(2) have ne: "xs \<noteq> []"
    by auto
  then have split: "xs = butlast xs @ [last xs]"
    by simp
  with assms(1) have "sorted_wrt P (butlast xs @ [last xs])"
    by simp
  then have "\<forall>y \<in> set (butlast xs). P y (last xs)"
    by (simp add: sorted_wrt_append)
  moreover from assms(2) split have "x \<in> set (butlast xs) \<or> x = last xs"
    by (metis Un_iff empty_iff empty_set set_ConsD set_append)
  ultimately show ?thesis
    using assms(3) by auto
qed

text \<open>
  C4. \<open>findLastAccessedReport\<close> returns the last element of \<open>sortReportsByLastVisited\<close>
  of the collection, from which the default rooms are dropped when the flag is truthy, and
  no report when nothing is left, as for the empty collection. The report it returns is a
  truthy entry of the collection with a truthy \<open>reportID\<close>, is no default room when the
  flag is set (however late a default room was visited), and no remaining entry was
  visited later.
\<close>

theorem findLastAccessedReport_last:
  "findLastAccessedReport c reports ignoreDefaultRooms =
     (let remaining = filter (\<lambda>report. \<not> (truthy ignoreDefaultRooms \<and> isDefaultRoom c report))
                        (sortReportsByLastVisited reports)
      in if remaining = [] then None else Some (last remaining))
   \<and> findLastAccessedReport c (Array []) ignoreDefaultRooms = None
   \<and> findLastAccessedReport c (Record []) ignoreDefaultRooms = None
   \<and> (\<forall>r. findLastAccessedReport c reports ignoreDefaultRooms = Some r \<longrightarrow>
         Some r \<in> set (toArray reports) \<and> truthy (reportID r)
         \<and> (truthy ignoreDefaultRooms \<longrightarrow> \<not> isDefaultRoom c r)
         \<and> (\<forall>r'. Some r' \<in> set (toArray reports) \<and> truthy (reportID r')
                \<and> \<not> (truthy ignoreDefaultRooms \<and> isDefaultRoom c r')
              \<longrightarrow> timestamp_le (lastVisitedTimestamp r') (lastVisitedTimestamp r)))"
proof (intro conjI allI impI)
  let ?keep = "\<lambda>report. \<not> (truthy ignoreDefaultRooms \<and> isDefaultRoom c report)"
  let ?remaining = "filter ?keep (sortReportsByLastVisited reports)"
  show eq: "findLastAccessedReport c reports ignoreDefaultRooms =
     (let remaining = ?remaining in if remaining = [] then None else Some (last remaining))"
    by (simp add: findLastAccessedReport_def last_us_def Let_def)
  have empty: "sortBy lastVisitedTimestamp ([] :: report list) = []"
    by (simp add: sortBy_def sort_entries_def array_sort_def)
  show "findLastAccessedReport c (Array []) ignoreDefaultRooms = None"
    by (simp add: findLastAccessedReport_def last_us_def sortReportsByLastVisited_def empty)
  show "findLastAccessedReport c (Record []) ignoreDefaultRooms = None"
    by (simp add: findLastAccessedReport_def last_us_def sortReportsByLastVisited_def empty)
  fix r
  assume "findLastAccessedReport c reports ignoreDefaultRooms = Some r"
  with eq have ne: "?remaining \<noteq> []" and r: "r = last ?remaining"
    by (simp_all add: Let_def split: if_splits)
  then have mem: "r \<in> set ?remaining"
    using last_in_set by blast
  then show "Some r \<in> set (toArray reports)" and "truthy (reportID r)"
    by (simp_all add: set_sortReportsByLastVisited)
  have sorted: "sorted_wrt (\<lambda>a b. timestamp_le (lastVisitedTimestamp a) (lastVisitedTimestamp b))
      ?remaining"
    unfolding sortReportsByLastVisited_def by (rule sorted_wrt_filter) (rule sorted_sortBy)
  {
    assume "truthy ignoreDefaultRooms"
    with mem show "\<not> isDefaultRoom c r"
      by simp
  }
  fix r'
  assume "Some r' \<in> set (toArray reports) \<and> truthy (reportID r')
        \<and> \<not> (truthy ignoreDefaultRooms \<and> isDefaultRoom c r')"
  then have "r' \<in> set ?remaining"
    by (simp add: set_sortReportsByLastVisited)
  from sorted_wrt_last [OF sorted this] show
    "timestamp_le (lastVisitedTimestamp r') (lastVisitedTimestamp r)"
    unfolding r by (simp add: timestamp_le_refl)
qed


lemma sortReportsByLastVisited_example:
  "sortReportsByLastVisited (Array
     [Some (empty_report\<lparr>reportID := JNum 1, lastVisitedTimestamp := Some 5\<rparr>),
      None,
      Some (empty_report\<lparr>reportID := JNum 0, lastVisitedTimestamp := Some 1\<rparr>),
      Some (empty_report\<lparr>reportID := JNum 2, lastVisitedTimestamp := Some 3\<rparr>),
      Some (empty_report\<lparr>reportID := JNum 3, lastVisitedTimestamp := Some 5\<rparr>)]) =
     [empty_report\<lparr>reportID := JNum 2, lastVisitedTimestamp := Some 3\<rparr>,
      empty_report\<lparr>reportID := JNum 1, lastVisitedTimestamp := Some 5\<rparr>,
      empty_report\<lparr>reportID := JNum 3, lastVisitedTimestamp := Some 5\<rparr>]"
  by (simp add: sortReportsByLastVisited_def sortBy_def sort_entries_def array_sort_def
      sortBy_compare_def js_greater_def js_less_def enumerate_simps)

theorem sortReportsByLastVisited_sorted_stable_witness:
  "sortReportsByLastVisited (Array
     [Some (empty_report\<lparr>reportID := JNum 1, lastVisitedTimestamp := Some 5\<rparr>),
      None,
      Some (empty_report\<lparr>reportID := JNum 0, lastVisitedTimestamp := Some 1\<rparr>),
      Some (empty_report\<lparr>reportID := JNum 2, lastVisitedTimestamp := Some 3\<rparr>),
      Some (empty_report\<lparr>reportID := JNum 3, lastVisitedTimestamp := Some 5\<rparr>)]) =
     [empty_report\<lparr>reportID := JNum 2, lastVisitedTimestamp := Some 3\<rparr>,
      empty_report\<lparr>reportID := JNum 1, lastVisitedTimestamp := Some 5\<rparr>,
      empty_report\<lparr>reportID := JNum 3, lastVisitedTimestamp := Some 5\<rparr>]
   \<and> map Some (filter (\<lambda>report. lastVisitedTimestamp report = Some 5)
        (sortReportsByLastVisited (Array
          [Some (empty_report\<lparr>reportID := JNum 1, lastVisitedTimestamp := Some 5\<rparr>),
           None,
           Some (empty_report\<lparr>reportID := JNum 0, lastVisitedTimestamp := Some 1\<rparr>),
           Some (empty_report\<lparr>reportID := JNum 2, lastVisitedTimestamp := Some 3\<rparr>),
           Some (empty_report\<lparr>reportID := JNum 3, lastVisitedTimestamp := Some 5\<rparr>)]))) =
     [Some (empty_report\<lparr>reportID := JNum 1, lastVisitedTimestamp := Some 5\<rparr>),
      Some (empty_report\<lparr>reportID := JNum 3, lastVisitedTimestamp := Some 5\<rparr>)]"
  using sortReportsByLastVisited_sorted_stable [of "Array
     [Some (empty_report\<lparr>reportID := JNum 1, lastVisitedTimestamp := Some 5\<rparr>),
      None,
      Some (empty_report\<lparr>reportID := JNum 0, lastVisitedTimestamp := Some 1\<rparr>),
      Some (empty_report\<lparr>reportID := JNum 2, lastVisitedTimestamp := Some 3\<rparr>),
      Some (empty_report\<lparr>reportID := JNum 3, lastVisitedTimestamp := Some 5\<rparr>)]"]
    sortReportsByLastVisited_example
  by simp

lemma findLastAccessedReport_example_sorted:
  "sortReportsByLastVisited (Array
     [Some (empty_report\<lparr>reportID := JNum 1, chatType := Some ''policyRoom'',
        lastVisitedTimestamp := Some 5\<rparr>),
      None,
      Some (empty_report\<lparr>reportID := JNum 2, chatType := Some ''policyAdmins'',
        lastVisitedTimestamp := Some 9\<rparr>)]) =
     [empty_report\<lparr>reportID := JNum 1, chatType := Some ''policyRoom'',
        lastVisitedTimestamp := Some 5\<rparr>,
      empty_report\<lparr>reportID := JNum 2, chatType := Some ''policyAdmins'',
        lastVisitedTimestamp := Some 9\<rparr>]"
  by (simp add: sortReportsByLastVisited_def sortBy_def sort_entries_def array_sort_def
      sortBy_compare_def js_greater_def js_less_def enumerate_simps)

theorem findLastAccessedReport_last_witness:
  "findLastAccessedReport app_constants (Array
     [Some (empty_report\<lparr>reportID := JNum 1, chatType := Some ''policyRoom'',
        lastVisitedTimestamp := Some 5\<rparr>),
      None,
      Some (empty_report\<lparr>reportID := JNum 2, chatType := Some ''policyAdmins'',
        lastVisitedTimestamp := Some 9\<rparr>)]) (JBool True) =
     Some (empty_report\<lparr>reportID := JNum 1, chatType := Some ''policyRoom'',
        lastVisitedTimestamp := Some 5\<rparr>)
   \<and> \<not> isDefaultRoom app_constants (empty_report\<lparr>reportID := JNum 1,
         chatType := Some ''policyRoom'', lastVisitedTimestamp := Some 5\<rparr>)
   \<and> isDefaultRoom app_constants (empty_report\<lparr>reportID := JNum 2,
         chatType := Some ''policyAdmins'', lastVisitedTimestamp := Some 9\<rparr>)
   \<and> findLastAccessedReport app_constants (Array
     [Some (empty_report\<lparr>reportID := JNum 1, chatType := Some ''policyRoom'',
        lastVisitedTimestamp := Some 5\<rparr>),
      None,
      Some (empty_report\<lparr>reportID := JNum 2, chatType := Some ''policyAdmins'',
        lastVisitedTimestamp := Some 9\<rparr>)]) JUndefined =
     Some (empty_report\<lparr>reportID := JNum 2, chatType := Some ''policyAdmins'',
        lastVisitedTimestamp := Some 9\<rparr>)"
proof -
  have room: "\<not> isDefaultRoom app_constants (empty_report\<lparr>reportID := JNum 1,
         chatType := Some ''policyRoom'', lastVisitedTimestamp := Some 5\<rparr>)"
    by (simp add: isDefaultRoom_def lodashGet_def app_constants_def empty_report_def)
  have admins: "isDefaultRoom app_constants (empty_report\<lparr>reportID := JNum 2,
         chatType := Some ''policyAdmins'', lastVisitedTimestamp := Some 9\<rparr>)"
    by (simp add: isDefaultRoom_def lodashGet_def app_constants_def empty_report_def)
  show ?thesis
    using findLastAccessedReport_last [of app_constants "Array
       [Some (empty_report\<lparr>reportID := JNum 1, chatType := Some ''policyRoom'',
          lastVisitedTimestamp := Some 5\<rparr>),
        None,
        Some (empty_report\<lparr>reportID := JNum 2, chatType := Some ''policyAdmins'',
          lastVisitedTimestamp := Some 9\<rparr>)]" "JBool True"]
      findLastAccessedReport_last [of app_constants "Array
       [Some (empty_report\<lparr>reportID := JNum 1, chatType := Some ''policyRoom'',
          lastVisitedTimestamp := Some 5\<rparr>),
        None,
        Some (empty_report\<lparr>reportID := JNum 2, chatType := Some ''policyAdmins'',
          lastVisitedTimestamp := Some 9\<rparr>)]" JUndefined]
      room admins
    by (simp add: findLastAccessedReport_example_sorted)
qed

section \<open>Room subtitle: properties\<close>

text \<open>
  C7. \<open>getChatRoomSubtitle\<close> returns the empty string for a report that is no default
  room, user-created policy room or policy-expense chat. For a domain-all room it returns
  the report name without its first character, so without the leading \<open>#\<close>. Otherwise,
  for an archived room it returns the stored \<open>oldPolicyName\<close>; otherwise, for a
  policy-expense chat that is the caller's own, the localized workspace label; otherwise
  the name stored under the key \<open>policy_<policyID>\<close> of the policy map, or the localized
  unavailable label when there is none.
\<close>

theorem getChatRoomSubtitle_cases:
  "(\<not> isDefaultRoom c r \<and> \<not> isUserCreatedPolicyRoom c r \<and> \<not> isPolicyExpenseChat c r \<longrightarrow>
      getChatRoomSubtitle c translateLocal r policiesMap = Inr (JStr ''''))
   \<and> (\<forall>rest. chatType r = Some (DOMAIN_ALL c) \<and> reportName r = Some (CHR ''#'' # rest) \<longrightarrow>
      getChatRoomSubtitle c translateLocal r policiesMap = Inr (JStr rest))
   \<and> (\<forall>n. chatType r = Some (DOMAIN_ALL c) \<and> reportName r = Some n \<longrightarrow>
      getChatRoomSubtitle c translateLocal r policiesMap = Inr (JStr (drop 1 n)))
   \<and> (chatType r \<noteq> Some (DOMAIN_ALL c) \<and> isArchivedRoom c r \<longrightarrow>
      getChatRoomSubtitle c translateLocal r policiesMap = Inr (of_field (oldPolicyName r)))
   \<and> (chatType r \<noteq> Some (DOMAIN_ALL c) \<and> \<not> isArchivedRoom c r
        \<and> isPolicyExpenseChat c r \<and> truthy (isOwnPolicyExpenseChat r) \<longrightarrow>
      getChatRoomSubtitle c translateLocal r policiesMap =
        Inr (JStr (translateLocal ''workspace.common.workspace'')))
   \<and> ((isDefaultRoom c r \<or> isUserCreatedPolicyRoom c r \<or> isPolicyExpenseChat c r)
        \<and> chatType r \<noteq> Some (DOMAIN_ALL c) \<and> \<not> isArchivedRoom c r
        \<and> \<not> (isPolicyExpenseChat c r \<and> truthy (isOwnPolicyExpenseChat r)) \<longrightarrow>
      getChatRoomSubtitle c translateLocal r policiesMap =
        Inr (JStr
          (case policiesMap
              (''policy_'' @ (case policyID r of None \<Rightarrow> ''undefined'' | Some pid \<Rightarrow> pid)) of
             None \<Rightarrow> translateLocal ''workspace.common.unavailable''
           | Some p \<Rightarrow>
               (case name p of
                  None \<Rightarrow> translateLocal ''workspace.common.unavailable''
                | Some n \<Rightarrow> n))))"
proof -
  have domain_all: "isDefaultRoom c r" if "chatType r = Some (DOMAIN_ALL c)"
    using that by (simp add: isDefaultRoom_def lodashGet_def)
  have archived: "isDefaultRoom c r \<or> isUserCreatedPolicyRoom c r \<or> isPolicyExpenseChat c r"
    if "isArchivedRoom c r"
    using that by (auto simp: isArchivedRoom_def isChatRoom_def split: if_splits)
  show ?thesis
    using archived
    by (auto simp: getChatRoomSubtitle_def substring_def template_field_def policy_name_def
        lodashGet_def COLLECTION_POLICY_def domain_all split: option.splits)
qed

lemma app_room_kinds:
  "isDefaultRoom app_constants r \<longleftrightarrow>
     chatType r \<in> {Some ''policyAdmins'', Some ''policyAnnounce'', Some ''domainAll''}"
  "isUserCreatedPolicyRoom app_constants r \<longleftrightarrow> chatType r = Some ''policyRoom''"
  "isPolicyExpenseChat app_constants r \<longleftrightarrow> chatType r = Some ''policyExpenseChat''"
  "DOMAIN_ALL app_constants = ''domainAll''"
  by (cases "chatType r";
      simp add: isDefaultRoom_def isUserCreatedPolicyRoom_def isPolicyExpenseChat_def
        lodashGet_def app_constants_def)+

lemma app_isArchivedRoom:
  "isArchivedRoom app_constants r \<longleftrightarrow>
     (isDefaultRoom app_constants r \<or> isUserCreatedPolicyRoom app_constants r
        \<or> isPolicyExpenseChat app_constants r)
     \<and> statusNum r = Some 2 \<and> stateNum r = Some 2"
  by (auto simp: isArchivedRoom_def isChatRoom_def app_constants_def)

lemma empty_report_fields:
  "reportID empty_report = JUndefined"
  "chatType empty_report = None"
  "reportName empty_report = None"
  "policyID empty_report = None"
  "isOwnPolicyExpenseChat empty_report = JUndefined"
  "oldPolicyName empty_report = None"
  "statusNum empty_report = None"
  "stateNum empty_report = None"
  "lastVisitedTimestamp empty_report = None"
  "participants empty_report = None"
  by (simp_all add: empty_report_def)

theorem getChatRoomSubtitle_cases_witness:
  "getChatRoomSubtitle app_constants (\<lambda>key. key) empty_report Map.empty = Inr (JStr '''')
   \<and> getChatRoomSubtitle app_constants (\<lambda>key. key)
        (empty_report\<lparr>chatType := Some ''domainAll'', reportName := Some ''#Acme''\<rparr>) Map.empty =
      Inr (JStr ''Acme'')
   \<and> getChatRoomSubtitle app_constants (\<lambda>key. key)
        (empty_report\<lparr>chatType := Some ''policyRoom'', oldPolicyName := Some ''Old Co'',
           statusNum := Some 2, stateNum := Some 2\<rparr>) Map.empty =
      Inr (JStr ''Old Co'')
   \<and> getChatRoomSubtitle app_constants (\<lambda>key. key)
        (empty_report\<lparr>chatType := Some ''policyExpenseChat'',
           isOwnPolicyExpenseChat := JBool True\<rparr>) Map.empty =
      Inr (JStr ''workspace.common.workspace'')
   \<and> getChatRoomSubtitle app_constants (\<lambda>key. key)
        (empty_report\<lparr>chatType := Some ''policyRoom'', policyID := Some ''A1''\<rparr>)
        [''policy_A1'' \<mapsto> \<lparr>name = Some ''Acme Inc''\<rparr>] =
      Inr (JStr ''Acme Inc'')
   \<and> getChatRoomSubtitle app_constants (\<lambda>key. key)
        (empty_report\<lparr>chatType := Some ''policyRoom'', policyID := Some ''A1''\<rparr>) Map.empty =
      Inr (JStr ''workspace.common.unavailable'')"
  using getChatRoomSubtitle_cases [of app_constants empty_report "\<lambda>key. key" Map.empty]
    getChatRoomSubtitle_cases [of app_constants
      "empty_report\<lparr>chatType := Some ''domainAll'', reportName := Some ''#Acme''\<rparr>"
      "\<lambda>key. key" Map.empty]
    getChatRoomSubtitle_cases [of app_constants
      "empty_report\<lparr>chatType := Some ''policyRoom'', oldPolicyName := Some ''Old Co'',
         statusNum := Some 2, stateNum := Some 2\<rparr>" "\<lambda>key. key" Map.empty]
    getChatRoomSubtitle_cases [of app_constants
      "empty_report\<lparr>chatType := Some ''policyExpenseChat'',
         isOwnPolicyExpenseChat := JBool True\<rparr>" "\<lambda>key. key" Map.empty]
    getChatRoomSubtitle_cases [of app_constants
      "empty_report\<lparr>chatType := Some ''policyRoom'', policyID := Some ''A1''\<rparr>"
      "\<lambda>key. key" "[''policy_A1'' \<mapsto> \<lparr>name = Some ''Acme Inc''\<rparr>]"]
    getChatRoomSubtitle_cases [of app_constants
      "empty_report\<lparr>chatType := Some ''policyRoom'', policyID := Some ''A1''\<rparr>"
      "\<lambda>key. key" Map.empty]
  by (simp add: app_isArchivedRoom app_room_kinds empty_report_fields of_field_def)

section \<open>Recipient local time: properties\<close>

lemma set_intersection_loop:
  "set (intersection_loop array other result) = set result \<union> (set array \<inter> set other)"
  by (induction array other result rule: intersection_loop.induct) auto

lemma hasExpensifyEmails_iff:
  "hasExpensifyEmails c emails \<longleftrightarrow> set emails \<inter> set (EXPENSIFY_EMAILS c) \<noteq> {}"
proof -
  have "hasExpensifyEmails c emails \<longleftrightarrow> set (intersection emails (EXPENSIFY_EMAILS c)) \<noteq> {}"
    by (simp add: hasExpensifyEmails_def)
  then show ?thesis
    by (simp add: intersection_def set_intersection_loop)
qed

text \<open>What the operation computes, for every personal-details object and report.\<close>

lemma truthy_canShowReportRecipientLocalTime:
  "truthy (canShowReportRecipientLocalTime c personalDetails r) \<longleftrightarrow>
     set (lodashGet (participants r) []) \<inter> set (EXPENSIFY_EMAILS c) = {}
     \<and> length (lodashGet (participants r) []) \<le> 1
     \<and> (\<exists>v. get_property personalDetails
               (first_participant_key (lodashGet (participants r) [])) = Some v
          \<and> (case lodashGet (recipient_timezone (Some v)) (Object (DEFAULT_TIME_ZONE c)) of
                Null \<Rightarrow> False
              | Object tz \<Rightarrow> truthy (selected tz)))"
proof (cases "get_property personalDetails
    (first_participant_key (lodashGet (participants r) []))")
  case None
  then show ?thesis
    by (simp add: canShowReportRecipientLocalTime_def Let_def)
next
  case (Some v)
  then show ?thesis
    by (cases "lodashGet (recipient_timezone (Some v)) (Object (DEFAULT_TIME_ZONE c))")
      (auto simp: canShowReportRecipientLocalTime_def Let_def hasExpensifyEmails_iff)
qed

text \<open>Where the key is no name of \<open>Object.prototype\<close>, only an entry of the object is read.\<close>

lemma get_property_own:
  "key \<notin> set Object_prototype_keys \<Longrightarrow>
     get_property object key = map_option Own (object key)"
  by (simp add: get_property_def split: option.splits)

text \<open>An e-mail address is no name of \<open>Object.prototype\<close>, and it is not \<open>undefined\<close>.\<close>

lemma email_not_inherited:
  "CHR ''@'' \<in> set p \<Longrightarrow> p \<notin> set Object_prototype_keys \<and> p \<noteq> ''undefined''"
  by (auto simp: Object_prototype_keys_def)

text \<open>
  An inherited property counts as a recipient: for the empty object and the participant
  \<open>constructor\<close> the result is the \<open>selected\<close> value of the default timezone.
\<close>

lemma inherited_property_example:
  "''constructor'' \<notin> set (EXPENSIFY_EMAILS c) \<Longrightarrow>
     canShowReportRecipientLocalTime c Map.empty
       (empty_report\<lparr>participants := Some [''constructor'']\<rparr>) =
     selected (DEFAULT_TIME_ZONE c)"
  by (simp add: canShowReportRecipientLocalTime_def hasExpensifyEmails_iff lodashGet_def
      first_participant_key_def get_property_def recipient_timezone_def
      Object_prototype_keys_def)

text \<open>
  A report without participants passes the guard against multiple participants, and the
  recipient is read under the key \<open>undefined\<close>: whatever the constants are, the result
  is truthy for an object that has a profile there.
\<close>

lemma no_participant_example:
  "truthy (canShowReportRecipientLocalTime c
     [''undefined'' \<mapsto>
        \<lparr>timezone = Some (Object \<lparr>automatic = JBool False, selected = JStr ''Europe/Paris''\<rparr>)\<rparr>]
     empty_report)"
  "\<not> canShowReportRecipientLocalTime_spec c
     [''undefined'' \<mapsto>
        \<lparr>timezone = Some (Object \<lparr>automatic = JBool False, selected = JStr ''Europe/Paris''\<rparr>)\<rparr>]
     empty_report"
  by (simp_all add: canShowReportRecipientLocalTime_def canShowReportRecipientLocalTime_spec_def
      hasExpensifyEmails_def intersection_def first_participant_key_def lodashGet_def
      get_property_def recipient_timezone_def empty_report_fields)

text \<open>
  C8, as the specification states it, fails. A participant whose profile has no timezone
  is given the default timezone constant, and with the default timezone of the
  application the result is truthy. And under no table of constants does the stated
  equivalence hold of every personal-details object and report.
\<close>

theorem canShowReportRecipientLocalTime_spec_fails:
  "truthy (canShowReportRecipientLocalTime
      (app_constants\<lparr>DEFAULT_TIME_ZONE :=
         \<lparr>automatic = JBool True, selected = JStr ''America/Los_Angeles''\<rparr>\<rparr>)
      [''user@example.com'' \<mapsto> \<lparr>timezone = None\<rparr>]
      (empty_report\<lparr>participants := Some [''user@example.com'']\<rparr>))
   \<and> \<not> canShowReportRecipientLocalTime_spec
      (app_constants\<lparr>DEFAULT_TIME_ZONE :=
         \<lparr>automatic = JBool True, selected = JStr ''America/Los_Angeles''\<rparr>\<rparr>)
      [''user@example.com'' \<mapsto> \<lparr>timezone = None\<rparr>]
      (empty_report\<lparr>participants := Some [''user@example.com'']\<rparr>)
   \<and> \<not> (\<exists>c. \<forall>personalDetails r.
          truthy (canShowReportRecipientLocalTime c personalDetails r) \<longleftrightarrow>
          canShowReportRecipientLocalTime_spec c personalDetails r)"
proof (intro conjI)
  let ?c = "app_constants\<lparr>DEFAULT_TIME_ZONE :=
         \<lparr>automatic = JBool True, selected = JStr ''America/Los_Angeles''\<rparr>\<rparr>"
  let ?pd = "[''user@example.com'' \<mapsto> \<lparr>timezone = None\<rparr>]"
  let ?r = "empty_report\<lparr>participants := Some [''user@example.com'']\<rparr>"
  show "truthy (canShowReportRecipientLocalTime ?c ?pd ?r)"
    by (simp add: canShowReportRecipientLocalTime_def hasExpensifyEmails_def intersection_def
        first_participant_key_def lodashGet_def get_property_def recipient_timezone_def
        app_constants_def)
  show "\<not> canShowReportRecipientLocalTime_spec ?c ?pd ?r"
    by (simp add: canShowReportRecipientLocalTime_spec_def app_constants_def)
  show "\<not> (\<exists>c. \<forall>personalDetails r.
          truthy (canShowReportRecipientLocalTime c personalDetails r) \<longleftrightarrow>
          canShowReportRecipientLocalTime_spec c personalDetails r)"
    using no_participant_example by blast
qed

text \<open>
  C8, amended. For a personal-details object without an entry under the key
  \<open>undefined\<close>, and a report none of whose participants is the name of a property that
  every object inherits (no e-mail address is one), \<open>canShowReportRecipientLocalTime\<close>
  is truthy exactly when the report has one participant, who is no reserved system email
  and whose profile exists in the object, and the profile's timezone, the default
  timezone constant when the profile has none, is not \<open>null\<close> and has a truthy
  \<open>selected\<close> value.
\<close>

theorem canShowReportRecipientLocalTime_iff:
  assumes "''undefined'' \<notin> dom personalDetails"
    and "set (case participants r of None \<Rightarrow> [] | Some ps \<Rightarrow> ps) \<inter> set Object_prototype_keys = {}"
  shows "truthy (canShowReportRecipientLocalTime c personalDetails r) \<longleftrightarrow>
     (\<exists>e p. (case participants r of None \<Rightarrow> [] | Some ps \<Rightarrow> ps) = [e]
        \<and> e \<notin> set (EXPENSIFY_EMAILS c)
        \<and> personalDetails e = Some p
        \<and> (case (case timezone p of None \<Rightarrow> Object (DEFAULT_TIME_ZONE c) | Some tz \<Rightarrow> tz) of
              Null \<Rightarrow> False
            | Object tz \<Rightarrow> truthy (selected tz)))"
proof -
  let ?ps = "case participants r of None \<Rightarrow> [] | Some ps \<Rightarrow> ps"
  have ps: "lodashGet (participants r) [] = ?ps"
    by (simp add: lodashGet_def)
  show ?thesis
  proof (cases ?ps)
    case Nil
    have "''undefined'' \<notin> set Object_prototype_keys"
      by (simp add: Object_prototype_keys_def)
    then have "get_property personalDetails ''undefined'' = None"
      using assms(1) by (simp add: get_property_own domIff)
    with Nil show ?thesis
      by (simp add: truthy_canShowReportRecipientLocalTime ps first_participant_key_def)
  next
    case (Cons e es)
    with assms(2) have "e \<notin> set Object_prototype_keys"
      by simp
    then have own: "get_property personalDetails e = map_option Own (personalDetails e)"
      by (rule get_property_own)
    show ?thesis
    proof (cases es)
      case Nil
      with Cons have one: "?ps = [e]"
        by simp
      show ?thesis
      proof (cases "personalDetails e")
        case None
        then show ?thesis
          by (simp add: truthy_canShowReportRecipientLocalTime ps one first_participant_key_def
              own)
      next
        case (Some p)
        then show ?thesis
          by (simp add: truthy_canShowReportRecipientLocalTime ps one first_participant_key_def
              own recipient_timezone_def lodashGet_def)
      qed
    next
      case (Cons e' es')
      with \<open>?ps = e # es\<close> have "?ps = e # e' # es'"
        by simp
      then show ?thesis
        by (simp add: truthy_canShowReportRecipientLocalTime ps)
    qed
  qed
qed

theorem canShowReportRecipientLocalTime_iff_witness:
  "''undefined'' \<notin> dom
     [''user@example.com'' \<mapsto> \<lparr>timezone = None\<rparr>,
      ''friend@example.com'' \<mapsto>
        \<lparr>timezone = Some (Object \<lparr>automatic = JBool False, selected = JStr ''Europe/Paris''\<rparr>)\<rparr>,
      ''concierge@expensify.com'' \<mapsto>
        \<lparr>timezone = Some (Object \<lparr>automatic = JBool False, selected = JStr ''Europe/Paris''\<rparr>)\<rparr>]
   \<and> set [''user@example.com''] \<inter> set Object_prototype_keys = {}
   \<and> truthy (canShowReportRecipientLocalTime app_constants
        [''user@example.com'' \<mapsto> \<lparr>timezone = None\<rparr>,
         ''friend@example.com'' \<mapsto>
           \<lparr>timezone = Some (Object \<lparr>automatic = JBool False, selected = JStr ''Europe/Paris''\<rparr>)\<rparr>,
         ''concierge@expensify.com'' \<mapsto>
           \<lparr>timezone = Some (Object \<lparr>automatic = JBool False, selected = JStr ''Europe/Paris''\<rparr>)\<rparr>]
        (empty_report\<lparr>participants := Some [''user@example.com'']\<rparr>))
   \<and> truthy (canShowReportRecipientLocalTime app_constants
        [''user@example.com'' \<mapsto> \<lparr>timezone = None\<rparr>,
         ''friend@example.com'' \<mapsto>
           \<lparr>timezone = Some (Object \<lparr>automatic = JBool False, selected = JStr ''Europe/Paris''\<rparr>)\<rparr>,
         ''concierge@expensify.com'' \<mapsto>
           \<lparr>timezone = Some (Object \<lparr>automatic = JBool False, selected = JStr ''Europe/Paris''\<rparr>)\<rparr>]
        (empty_report\<lparr>participants := Some [''friend@example.com'']\<rparr>))
   \<and> \<not> truthy (canShowReportRecipientLocalTime app_constants
        [''user@example.com'' \<mapsto> \<lparr>timezone = None\<rparr>,
         ''friend@example.com'' \<mapsto>
           \<lparr>timezone = Some (Object \<lparr>automatic = JBool False, selected = JStr ''Europe/Paris''\<rparr>)\<rparr>,
         ''concierge@expensify.com'' \<mapsto>
           \<lparr>timezone = Some (Object \<lparr>automatic = JBool False, selected = JStr ''Europe/Paris''\<rparr>)\<rparr>]
        (empty_report\<lparr>participants := Some [''concierge@expensify.com'']\<rparr>))
   \<and> \<not> truthy (canShowReportRecipientLocalTime app_constants
        [''user@example.com'' \<mapsto> \<lparr>timezone = None\<rparr>,
         ''friend@example.com'' \<mapsto>
           \<lparr>timezone = Some (Object \<lparr>automatic = JBool False, selected = JStr ''Europe/Paris''\<rparr>)\<rparr>,
         ''concierge@expensify.com'' \<mapsto>
           \<lparr>timezone = Some (Object \<lparr>automatic = JBool False, selected = JStr ''Europe/Paris''\<rparr>)\<rparr>]
        (empty_report\<lparr>participants := Some [''stranger@example.com'']\<rparr>))
   \<and> \<not> truthy (canShowReportRecipientLocalTime app_constants
        [''user@example.com'' \<mapsto> \<lparr>timezone = None\<rparr>,
         ''friend@example.com'' \<mapsto>
           \<lparr>timezone = Some (Object \<lparr>automatic = JBool False, selected = JStr ''Europe/Paris''\<rparr>)\<rparr>,
         ''concierge@expensify.com'' \<mapsto>
           \<lparr>timezone = Some (Object \<lparr>automatic = JBool False, selected = JStr ''Europe/Paris''\<rparr>)\<rparr>]
        (empty_report\<lparr>participants := Some [''user@example.com'', ''friend@example.com'']\<rparr>))
   \<and> \<not> truthy (canShowReportRecipientLocalTime app_constants
        [''user@example.com'' \<mapsto> \<lparr>timezone = None\<rparr>,
         ''friend@example.com'' \<mapsto>
           \<lparr>timezone = Some (Object \<lparr>automatic = JBool False, selected = JStr ''Europe/Paris''\<rparr>)\<rparr>,
         ''concierge@expensify.com'' \<mapsto>
           \<lparr>timezone = Some (Object \<lparr>automatic = JBool False, selected = JStr ''Europe/Paris''\<rparr>)\<rparr>]
        empty_report)"
proof -
  let ?pd = "[''user@example.com'' \<mapsto> \<lparr>timezone = None\<rparr>,
      ''friend@example.com'' \<mapsto>
        \<lparr>timezone = Some (Object \<lparr>automatic = JBool False, selected = JStr ''Europe/Paris''\<rparr>)\<rparr>,
      ''concierge@expensify.com'' \<mapsto>
        \<lparr>timezone = Some (Object \<lparr>automatic = JBool False, selected = JStr ''Europe/Paris''\<rparr>)\<rparr>]"
  have dom: "''undefined'' \<notin> dom ?pd"
    by simp
  have keys: "set (case participants (empty_report\<lparr>participants := Some ps\<rparr>) of
        None \<Rightarrow> [] | Some ps \<Rightarrow> ps) \<inter> set Object_prototype_keys = {}"
    if "\<forall>p \<in> set ps. CHR ''@'' \<in> set p" for ps
    using that email_not_inherited by auto
  have none: "set (case participants empty_report of None \<Rightarrow> [] | Some ps \<Rightarrow> ps)
      \<inter> set Object_prototype_keys = {}"
    by (simp add: empty_report_fields)
  have user: "set [''user@example.com''] \<inter> set Object_prototype_keys = {}"
    using keys [of "[''user@example.com'']"] by simp
  show ?thesis
    using dom user
      canShowReportRecipientLocalTime_iff [OF dom keys, of "[''user@example.com'']" app_constants]
      canShowReportRecipientLocalTime_iff [OF dom keys, of "[''friend@example.com'']" app_constants]
      canShowReportRecipientLocalTime_iff [OF dom keys, of "[''concierge@expensify.com'']"
        app_constants]
      canShowReportRecipientLocalTime_iff [OF dom keys, of "[''stranger@example.com'']"
        app_constants]
      canShowReportRecipientLocalTime_iff [OF dom keys,
        of "[''user@example.com'', ''friend@example.com'']" app_constants]
      canShowReportRecipientLocalTime_iff [OF dom none, of app_constants]
    by (simp add: app_constants_def empty_report_fields)
qed

text \<open>
  The first part of the counterexample does not rest on the particular default: whenever
  the default timezone has a truthy \<open>selected\<close> value, a single participant outside the
  reserved emails whose profile has no timezone gets a truthy result.
\<close>

lemma default_timezone_applies:
  assumes "truthy (selected (DEFAULT_TIME_ZONE c))" and "e \<notin> set (EXPENSIFY_EMAILS c)"
    and "participants r = Some [e]" and "personalDetails e = Some \<lparr>timezone = None\<rparr>"
  shows "truthy (canShowReportRecipientLocalTime c personalDetails r)"
  using assms
  by (simp add: truthy_canShowReportRecipientLocalTime first_participant_key_def lodashGet_def
      get_property_def recipient_timezone_def)

section \<open>Absent fields\<close>

text \<open>
  C5, as the specification states it, fails: \<open>isDeletedAction\<close> raises on an action
  without a \<open>message\<close>, and \<open>getChatRoomSubtitle\<close> raises on a domain-all report without
  a \<open>reportName\<close>.
\<close>

theorem absent_field_raises:
  "isDeletedAction \<lparr>actorEmail = JStr ''user@example.com'', reportActionID = JNum 7,
      actionName = Some ''ADDCOMMENT'', message = None\<rparr> = Inl TypeError
   \<and> getChatRoomSubtitle app_constants (\<lambda>key. key)
        (empty_report\<lparr>chatType := Some ''domainAll''\<rparr>) Map.empty = Inl TypeError"
  by (simp add: isDeletedAction_def getChatRoomSubtitle_def app_room_kinds empty_report_fields)

text \<open>
  C5, amended. A field that an operation reads through a defaulting lookup is replaced
  by its default when it is absent: an absent \<open>chatType\<close> reads as the empty string, absent
  \<open>participants\<close> as the empty sequence, an absent message or first message text as the
  empty string, a profile's absent \<open>timezone\<close> as the default timezone constant. The two
  operations that read a field directly return a value exactly when it is there:
  \<open>isDeletedAction\<close> when the action has a \<open>message\<close>, \<open>getChatRoomSubtitle\<close> when the
  report is not a domain-all room or has a \<open>reportName\<close>.
\<close>

theorem absent_fields_default:
  "(isl (isDeletedAction a) \<longleftrightarrow> message a = None)
   \<and> (isl (getChatRoomSubtitle c translateLocal r policiesMap) \<longleftrightarrow>
        chatType r = Some (DOMAIN_ALL c) \<and> reportName r = None)
   \<and> isDefaultRoom c (r\<lparr>chatType := None\<rparr>) = isDefaultRoom c (r\<lparr>chatType := Some ''''\<rparr>)
   \<and> isAdminRoom c (r\<lparr>chatType := None\<rparr>) = isAdminRoom c (r\<lparr>chatType := Some ''''\<rparr>)
   \<and> isAnnounceRoom c (r\<lparr>chatType := None\<rparr>) = isAnnounceRoom c (r\<lparr>chatType := Some ''''\<rparr>)
   \<and> isUserCreatedPolicyRoom c (r\<lparr>chatType := None\<rparr>) =
       isUserCreatedPolicyRoom c (r\<lparr>chatType := Some ''''\<rparr>)
   \<and> isPolicyExpenseChat c (r\<lparr>chatType := None\<rparr>) =
       isPolicyExpenseChat c (r\<lparr>chatType := Some ''''\<rparr>)
   \<and> isArchivedRoom c (r\<lparr>chatType := None\<rparr>) = isArchivedRoom c (r\<lparr>chatType := Some ''''\<rparr>)
   \<and> isConciergeChatReport c (r\<lparr>participants := None\<rparr>) =
       isConciergeChatReport c (r\<lparr>participants := Some []\<rparr>)
   \<and> canShowReportRecipientLocalTime c personalDetails (r\<lparr>participants := None\<rparr>) =
       canShowReportRecipientLocalTime c personalDetails (r\<lparr>participants := Some []\<rparr>)
   \<and> canShowReportRecipientLocalTime c (personalDetails(e \<mapsto> \<lparr>timezone = None\<rparr>)) r =
       canShowReportRecipientLocalTime c
         (personalDetails(e \<mapsto> \<lparr>timezone = Some (Object (DEFAULT_TIME_ZONE c))\<rparr>)) r
   \<and> canEditReportAction c st (a\<lparr>message := None\<rparr>) =
       canEditReportAction c st (a\<lparr>message := Some [\<lparr>html = None, text' = Some ''''\<rparr>]\<rparr>)
   \<and> canEditReportAction c st (a\<lparr>message := Some [\<lparr>html = h, text' = None\<rparr>]\<rparr>) =
       canEditReportAction c st (a\<lparr>message := Some [\<lparr>html = h, text' = Some ''''\<rparr>]\<rparr>)"
proof (intro conjI)
  show "isl (isDeletedAction a) \<longleftrightarrow> message a = None"
    by (simp add: isDeletedAction_def split: option.splits list.splits)
  show "isl (getChatRoomSubtitle c translateLocal r policiesMap) \<longleftrightarrow>
        chatType r = Some (DOMAIN_ALL c) \<and> reportName r = None"
    by (auto simp: getChatRoomSubtitle_def isDefaultRoom_def lodashGet_def split: option.splits)
  show "canShowReportRecipientLocalTime c (personalDetails(e \<mapsto> \<lparr>timezone = None\<rparr>)) r =
       canShowReportRecipientLocalTime c
         (personalDetails(e \<mapsto> \<lparr>timezone = Some (Object (DEFAULT_TIME_ZONE c))\<rparr>)) r"
    by (simp add: canShowReportRecipientLocalTime_def Let_def lodashGet_def get_property_def
        recipient_timezone_def)
qed (simp_all add: isDefaultRoom_def isAdminRoom_def isAnnounceRoom_def
    isUserCreatedPolicyRoom_def isPolicyExpenseChat_def isArchivedRoom_def isChatRoom_def
    isConciergeChatReport_def canShowReportRecipientLocalTime_def canEditReportAction_def
    message_0_text_def lodashGet_def)

theorem absent_fields_default_witness:
  "\<not> isl (isDeletedAction \<lparr>actorEmail = JStr ''user@example.com'', reportActionID = JNum 7,
      actionName = Some ''ADDCOMMENT'', message = Some []\<rparr>)
   \<and> isl (isDeletedAction \<lparr>actorEmail = JStr ''user@example.com'', reportActionID = JNum 7,
      actionName = Some ''ADDCOMMENT'', message = None\<rparr>)
   \<and> \<not> isl (getChatRoomSubtitle app_constants (\<lambda>key. key)
        (empty_report\<lparr>chatType := Some ''domainAll'', reportName := Some ''#Acme''\<rparr>) Map.empty)
   \<and> isl (getChatRoomSubtitle app_constants (\<lambda>key. key)
        (empty_report\<lparr>chatType := Some ''domainAll''\<rparr>) Map.empty)"
  using absent_fields_default [of "\<lparr>actorEmail = JStr ''user@example.com'',
        reportActionID = JNum 7, actionName = Some ''ADDCOMMENT'', message = Some []\<rparr>"
      app_constants "\<lambda>key. key"
      "empty_report\<lparr>chatType := Some ''domainAll'', reportName := Some ''#Acme''\<rparr>" Map.empty]
    absent_fields_default [of "\<lparr>actorEmail = JStr ''user@example.com'',
        reportActionID = JNum 7, actionName = Some ''ADDCOMMENT'', message = None\<rparr>"
      app_constants "\<lambda>key. key" "empty_report\<lparr>chatType := Some ''domainAll''\<rparr>" Map.empty]
  by (simp add: app_room_kinds empty_report_fields)

end
